theory Spec2Isabelle
  imports Complex_Main "HOL-Library.Word"
begin

section \<open>Numbers\<close>

text \<open>
  The ray tracer of \<^verbatim>\<open>rt.c\<close> computes on C \<^verbatim>\<open>double\<close>s. A finite \<^verbatim>\<open>double\<close> is a
  \<^typ>\<open>real\<close> here and the arithmetic on finite values is exact: rounding and overflow
  are not modelled, and \<^verbatim>\<open>M_PI\<close> is \<^term>\<open>pi\<close>. The two values that are not
  numbers are kept where the program can produce them from finite inputs: the literal
  \<^verbatim>\<open>INFINITY\<close>, which \<^verbatim>\<open>sphere_ray_intersect\<close> returns for a miss, and the NaN that
  C's \<^verbatim>\<open>sqrt\<close> returns on a negative argument (HOL's \<^term>\<open>sqrt\<close> is total and
  returns a negative number there). A real-valued result of the model is the result of
  the program up to rounding. Which way a comparison of two computed values goes can
  depend on the rounding; what holds only when no operation rounds is kept apart in the
  last section.
\<close>

datatype xdouble = Finite real | Infinity | NaN

text \<open>C's \<^verbatim>\<open>a >= b\<close>: every comparison with a NaN is false.\<close>

fun xd_ge :: "xdouble \<Rightarrow> xdouble \<Rightarrow> bool" where
  "xd_ge NaN _ = False"
| "xd_ge _ NaN = False"
| "xd_ge Infinity _ = True"
| "xd_ge (Finite _) Infinity = False"
| "xd_ge (Finite u) (Finite v) = (u \<ge> v)"

fun isinf :: "xdouble \<Rightarrow> bool" where
  "isinf Infinity = True"
| "isinf _ = False"

text \<open>C's \<^verbatim>\<open>sqrt\<close>: \<open>None\<close> is the NaN of a negative argument.\<close>

definition c_sqrt :: "real \<Rightarrow> real option" where
  "c_sqrt v = (if v < 0 then None else Some (sqrt v))"

text \<open>
  C's \<^verbatim>\<open>pow\<close> on a base that is not negative and a positive exponent, the only way
  \<^verbatim>\<open>main\<close> calls it.
\<close>

definition pow :: "real \<Rightarrow> real \<Rightarrow> real" where
  "pow v e = v powr e"

text \<open>
  The conversion of a \<^verbatim>\<open>double\<close> to \<^verbatim>\<open>uint8_t\<close> drops the fractional part (towards
  zero); C defines it for values whose integral part fits the type.
\<close>

definition c_trunc :: "real \<Rightarrow> int" where
  "c_trunc v = (if v < 0 then \<lceil>v\<rceil> else \<lfloor>v\<rfloor>)"

definition uint8_of_double :: "real \<Rightarrow> 8 word" where
  "uint8_of_double v = word_of_int (c_trunc v)"

section \<open>Vectors\<close>

text \<open>
  Modelled from the spec: \<^verbatim>\<open>vec3.h\<close> (the type \<^verbatim>\<open>struct vec3\<close> and the functions
  \<^verbatim>\<open>vec3_add\<close>, \<^verbatim>\<open>vec3_sub\<close>, \<^verbatim>\<open>vec3_mul\<close>, \<^verbatim>\<open>vec3_mul_vec\<close>, \<^verbatim>\<open>vec3_dot\<close>,
  \<^verbatim>\<open>vec3_cross\<close>, \<^verbatim>\<open>vec3_length\<close>, \<^verbatim>\<open>vec3_normalize\<close>, \<^verbatim>\<open>vec3_reflect\<close>) is not
  part of the sources at hand. The definitions follow section 4.1 of the specification:
  three real components; addition, subtraction, scalar and elementwise multiplication,
  dot product, cross product, Euclidean length, normalisation (division by the length,
  an error on the zero vector, here \<open>None\<close>) and
  \<open>reflect(incident, normal) = incident - 2 (incident . normal) normal\<close>.
  The field names \<open>x\<close>, \<open>y\<close>, \<open>z\<close> are the ones \<^verbatim>\<open>rt.c\<close> reads.
\<close>

record vec3 =
  x :: real
  y :: real
  z :: real

definition vec3_zero :: vec3 where
  "vec3_zero = \<lparr>x = 0, y = 0, z = 0\<rparr>"

definition vec3_add :: "vec3 \<Rightarrow> vec3 \<Rightarrow> vec3" where
  "vec3_add u v = \<lparr>x = x u + x v, y = y u + y v, z = z u + z v\<rparr>"

definition vec3_sub :: "vec3 \<Rightarrow> vec3 \<Rightarrow> vec3" where
  "vec3_sub u v = \<lparr>x = x u - x v, y = y u - y v, z = z u - z v\<rparr>"

definition vec3_mul :: "vec3 \<Rightarrow> real \<Rightarrow> vec3" where
  "vec3_mul v k = \<lparr>x = x v * k, y = y v * k, z = z v * k\<rparr>"

definition vec3_mul_vec :: "vec3 \<Rightarrow> vec3 \<Rightarrow> vec3" where
  "vec3_mul_vec u v = \<lparr>x = x u * x v, y = y u * y v, z = z u * z v\<rparr>"

definition vec3_dot :: "vec3 \<Rightarrow> vec3 \<Rightarrow> real" where
  "vec3_dot u v = x u * x v + y u * y v + z u * z v"

definition vec3_cross :: "vec3 \<Rightarrow> vec3 \<Rightarrow> vec3" where
  "vec3_cross u v =
     \<lparr>x = y u * z v - z u * y v,
      y = z u * x v - x u * z v,
      z = x u * y v - y u * x v\<rparr>"

definition vec3_length :: "vec3 \<Rightarrow> real" where
  "vec3_length v = sqrt (vec3_dot v v)"

definition vec3_normalize :: "vec3 \<Rightarrow> vec3 option" where
  "vec3_normalize v =
     (let len = vec3_length v
      in if len = 0 then None
         else Some \<lparr>x = x v / len, y = y v / len, z = z v / len\<rparr>)"

definition vec3_reflect :: "vec3 \<Rightarrow> vec3 \<Rightarrow> vec3" where
  "vec3_reflect incident nrm =
     vec3_sub incident (vec3_mul nrm (2 * vec3_dot incident nrm))"

section \<open>Scene data\<close>

record sphere =
  center :: vec3
  radius :: real

record ray =
  source :: vec3
  direction :: vec3

record camera =
  center :: vec3
  forward :: vec3
  up :: vec3
  width :: real
  height :: real
  focal_distance :: real

record intersection =
  point :: vec3
  normal :: vec3

section \<open>The camera\<close>

text \<open>
  \<^verbatim>\<open>360 / 2\<close> is a division of C \<^verbatim>\<open>int\<close>s, converted to \<^verbatim>\<open>double\<close> afterwards.
\<close>

definition focal_distance_from_fov :: "real \<Rightarrow> real \<Rightarrow> real" where
  "focal_distance_from_fov wdt fov_deg =
     (let fov_rad = fov_deg * pi / real_of_int (360 div 2)
      in (wdt / 2) / tan (fov_rad / 2))"

text \<open>
  \<^verbatim>\<open>camera_cast_ray\<close> fills the ray it is given a pointer to; the model returns that
  ray. \<open>None\<close>: the direction to normalise was the zero vector.
\<close>

definition camera_cast_ray :: "camera \<Rightarrow> real \<Rightarrow> real \<Rightarrow> ray option" where
  "camera_cast_ray cam cam_x cam_y =
     (let x_coeff = cam_x * camera.width cam;
          y_coeff = cam_y * camera.height cam;
          right = vec3_cross (forward cam) (up cam);
          right_offset = vec3_mul right x_coeff;
          up_offset = vec3_mul (up cam) y_coeff;
          offset = vec3_add right_offset up_offset;
          src = vec3_add (camera.center cam) offset;
          vantage_point_offset = vec3_mul (forward cam) (- focal_distance cam);
          vantage_point = vec3_add vantage_point_offset (camera.center cam)
      in case vec3_normalize (vec3_sub src vantage_point) of
           None \<Rightarrow> None
         | Some dir \<Rightarrow> Some \<lparr>source = src, direction = dir\<rparr>)"

section \<open>Ray-sphere intersection\<close>

text \<open>
  \<^verbatim>\<open>sphere_ray_intersect\<close> returns the distance and, on the paths that reach the end
  of the function, writes the intersection through its first argument. The model
  returns both: the first component is what the caller's
  \<^verbatim>\<open>struct intersection\<close> holds afterwards, \<open>None\<close> when it holds no numbers (not
  written on the two \<^verbatim>\<open>return INFINITY\<close> paths, so still indeterminate; computed from a
  NaN, or with the normal of a zero vector, otherwise).
\<close>

definition sphere_ray_intersect :: "ray \<Rightarrow> sphere \<Rightarrow> intersection option \<times> xdouble" where
  "sphere_ray_intersect ry sph =
     (let hypothenuse = vec3_sub (sphere.center sph) (source ry);
          hyp_len = vec3_length hypothenuse;
          projection = vec3_dot hypothenuse (direction ry)
      in if projection < 0 then (None, Infinity)
         else
           (case c_sqrt (hyp_len * hyp_len - projection * projection) of
              None \<Rightarrow> (None, NaN)
            | Some d \<Rightarrow>
                if d > radius sph then (None, Infinity)
                else
                  (let radius = radius sph
                   in case c_sqrt (radius * radius - d * d) of
                        None \<Rightarrow> (None, NaN)
                      | Some m \<Rightarrow>
                          (let t0 = projection - m;
                               t1 = projection + m;
                               t = (if t0 < 0 then t1 else t0);
                               point_offset = vec3_mul (direction ry) t;
                               point = vec3_add (source ry) point_offset
                           in (case vec3_normalize (vec3_sub point (sphere.center sph)) of
                                 None \<Rightarrow> None
                               | Some n \<Rightarrow> Some \<lparr>point = point, normal = n\<rparr>,
                               Finite t)))))"

section \<open>Pixels\<close>

text \<open>
  Modelled from the spec: \<^verbatim>\<open>image.h\<close> (the types \<^verbatim>\<open>struct rgb_pixel\<close> and
  \<^verbatim>\<open>struct rgb_image\<close>, the functions \<^verbatim>\<open>rgb_image_clear\<close> and \<^verbatim>\<open>rgb_image_set\<close>) is
  not part of the sources at hand. Following sections 3 and 6 of the specification, a
  pixel is three 8-bit channels, and the buffer is a grid of \<open>width \<times> height\<close> pixel
  slots with one write operation, "set pixel at (x, y) to color C, where
  \<open>0 \<le> x < width\<close>, \<open>0 \<le> y < height\<close>"; clearing sets every slot to the background
  colour. The field names are the ones \<^verbatim>\<open>rt.c\<close> uses.
\<close>

record rgb_pixel =
  r :: "8 word"
  g :: "8 word"
  b :: "8 word"

record rgb_image =
  width :: nat
  height :: nat
  pixels :: "nat \<times> nat \<Rightarrow> rgb_pixel"

definition rgb_image_clear :: "rgb_image \<Rightarrow> rgb_pixel \<Rightarrow> rgb_image" where
  "rgb_image_clear img color = img\<lparr>pixels := (\<lambda>_. color)\<rparr>"

definition rgb_image_set :: "rgb_image \<Rightarrow> nat \<Rightarrow> nat \<Rightarrow> rgb_pixel \<Rightarrow> rgb_image" where
  "rgb_image_set img col row color =
     (if col < rgb_image.width img \<and> row < rgb_image.height img
      then img\<lparr>pixels := (pixels img)((col, row) := color)\<rparr>
      else img)"

definition translate_light_component :: "real \<Rightarrow> 8 word" where
  "translate_light_component light_comp =
     (let light_comp = (if light_comp < 0 then 0 else light_comp);
          light_comp = (if light_comp > 1 then 1 else light_comp)
      in uint8_of_double (light_comp * 255))"

definition rgb_color_from_light :: "vec3 \<Rightarrow> rgb_pixel" where
  "rgb_color_from_light light =
     \<lparr>r = translate_light_component (x light),
      g = translate_light_component (y light),
      b = translate_light_component (z light)\<rparr>"



section \<open>The ray-sphere equation\<close>

text \<open>
  The point of a ray at distance \<open>t\<close>, and the ray-sphere equation of the
  specification: \<open>t\<close> is a root when that point lies on the sphere, at distance
  \<open>radius\<close> from the centre (written with squares).
\<close>

definition ray_point :: "ray \<Rightarrow> real \<Rightarrow> vec3" where
  "ray_point ry t = vec3_add (source ry) (vec3_mul (direction ry) t)"

definition ray_sphere_root :: "ray \<Rightarrow> sphere \<Rightarrow> real \<Rightarrow> bool" where
  "ray_sphere_root ry sph t =
     (vec3_dot (vec3_sub (ray_point ry t) (sphere.center sph))
               (vec3_sub (ray_point ry t) (sphere.center sph))
      = radius sph * radius sph)"

section \<open>The render driver\<close>

text \<open>
  The body of the pixel loop of \<^verbatim>\<open>main\<close>, cut at its comments into the search for
  the nearest intersection, the three light contributions and the write to the image.
  What \<^verbatim>\<open>main\<close> declares before the loops (camera, spheres, light colour, light
  direction, light intensity, image) is a parameter here; the values \<^verbatim>\<open>main\<close> gives
  them follow at the end. What the loop body declares itself is a constant.
\<close>

text \<open>
  The loop over the spheres, on its two variables \<^verbatim>\<open>best_intersection\<close> (\<open>None\<close> while
  it holds no numbers, as at its declaration) and \<^verbatim>\<open>best_intersection_dist\<close>.
\<close>

fun nearest_intersection ::
  "ray \<Rightarrow> sphere list \<Rightarrow> intersection option \<times> xdouble \<Rightarrow> intersection option \<times> xdouble" where
  "nearest_intersection ry [] best = best"
| "nearest_intersection ry (sph # rest) (best_intersection, best_intersection_dist) =
     (let (intersection, intersection_dist) = sphere_ray_intersect ry sph
      in if xd_ge intersection_dist best_intersection_dist
         then nearest_intersection ry rest (best_intersection, best_intersection_dist)
         else nearest_intersection ry rest (intersection, intersection_dist))"

definition diffuse_kn :: real where
  "diffuse_kn = 0.20"

definition surface_color :: vec3 where
  "surface_color = \<lparr>x = 0.75, y = 0.125, z = 0.125\<rparr>"

definition spec_n :: real where
  "spec_n = 10"

definition spec_ks :: real where
  "spec_ks = 0.20"

definition ambient_intensity :: real where
  "ambient_intensity = 0.1"

definition diffuse_contribution :: "vec3 \<Rightarrow> vec3 \<Rightarrow> real \<Rightarrow> intersection \<Rightarrow> vec3" where
  "diffuse_contribution light_color light_direction light_intensity best_intersection =
     (let light = vec3_mul light_color light_intensity;
          diffuse_light_color = vec3_mul_vec light surface_color;
          diffuse_intensity = - vec3_dot (normal best_intersection) light_direction;
          diffuse_intensity = (if diffuse_intensity < 0 then 0 else diffuse_intensity)
      in vec3_mul diffuse_light_color (diffuse_intensity * diffuse_kn))"

definition specular_contribution :: "vec3 \<Rightarrow> vec3 \<Rightarrow> ray \<Rightarrow> intersection \<Rightarrow> vec3" where
  "specular_contribution light_color light_direction ry best_intersection =
     (let light_reflection_dir = vec3_reflect light_direction (normal best_intersection);
          light_reflection_proj = - vec3_dot light_reflection_dir (direction ry)
      in if light_reflection_proj < 0 then vec3_zero
         else (let spec_coeff = pow light_reflection_proj spec_n * spec_ks
               in vec3_mul light_color spec_coeff))"

definition ambient_contribution :: vec3 where
  "ambient_contribution = vec3_mul surface_color ambient_intensity"

definition pix_color :: "vec3 \<Rightarrow> vec3 \<Rightarrow> real \<Rightarrow> ray \<Rightarrow> intersection \<Rightarrow> vec3" where
  "pix_color light_color light_direction light_intensity ry best_intersection =
     (let pix_color = vec3_zero;
          pix_color = vec3_add pix_color ambient_contribution;
          pix_color = vec3_add pix_color
            (diffuse_contribution light_color light_direction light_intensity best_intersection);
          pix_color = vec3_add pix_color
            (specular_contribution light_color light_direction ry best_intersection)
      in pix_color)"

text \<open>
  What one iteration computes before it writes: \<open>NotShaded\<close> when it leaves through
  the \<^verbatim>\<open>continue\<close> after \<^verbatim>\<open>isinf\<close>, \<open>Shaded c\<close> with the light-space colour \<open>c\<close>, and
  \<open>NoNumber\<close> when it goes on with a NaN or with an intersection that holds no numbers
  (C then converts a NaN to \<^verbatim>\<open>uint8_t\<close>, which has no defined result).
\<close>

datatype pixel_light = NotShaded | Shaded vec3 | NoNumber

definition trace_pixel ::
  "camera \<Rightarrow> sphere list \<Rightarrow> vec3 \<Rightarrow> vec3 \<Rightarrow> real \<Rightarrow> rgb_image \<Rightarrow> nat \<Rightarrow> nat \<Rightarrow> pixel_light" where
  "trace_pixel cam spheres light_color light_direction light_intensity img col row =
     (let cam_x = (real col / real (rgb_image.width img)) - 0.5;
          cam_y = (real row / real (rgb_image.height img)) - 0.5
      in case camera_cast_ray cam cam_x cam_y of
           None \<Rightarrow> NoNumber
         | Some ry \<Rightarrow>
             (case nearest_intersection ry spheres (None, Infinity) of
                (best_intersection, best_intersection_dist) \<Rightarrow>
                  if isinf best_intersection_dist then NotShaded
                  else (case (best_intersection, best_intersection_dist) of
                          (Some bi, Finite _) \<Rightarrow>
                            Shaded (pix_color light_color light_direction light_intensity ry bi)
                        | _ \<Rightarrow> NoNumber)))"

definition render_pixel ::
  "camera \<Rightarrow> sphere list \<Rightarrow> vec3 \<Rightarrow> vec3 \<Rightarrow> real \<Rightarrow> rgb_image \<Rightarrow> nat \<Rightarrow> nat \<Rightarrow> rgb_image option" where
  "render_pixel cam spheres light_color light_direction light_intensity img col row =
     (case trace_pixel cam spheres light_color light_direction light_intensity img col row of
        NotShaded \<Rightarrow> Some img
      | Shaded c \<Rightarrow> Some (rgb_image_set img col row (rgb_color_from_light c))
      | NoNumber \<Rightarrow> None)"

text \<open>
  The two loops over the pixels, rows outside and columns inside, as a recursion over
  the list of the coordinates in the order the loops visit them. An iteration that
  computes on a NaN ends the model's run with \<open>None\<close>.
\<close>

fun render_pixels ::
  "camera \<Rightarrow> sphere list \<Rightarrow> vec3 \<Rightarrow> vec3 \<Rightarrow> real \<Rightarrow> (nat \<times> nat) list \<Rightarrow> rgb_image
   \<Rightarrow> rgb_image option" where
  "render_pixels cam spheres light_color light_direction light_intensity [] img = Some img"
| "render_pixels cam spheres light_color light_direction light_intensity ((row, col) # rest) img =
     (case render_pixel cam spheres light_color light_direction light_intensity img col row of
        None \<Rightarrow> None
      | Some img' \<Rightarrow>
          render_pixels cam spheres light_color light_direction light_intensity rest img')"

definition render ::
  "camera \<Rightarrow> sphere list \<Rightarrow> vec3 \<Rightarrow> vec3 \<Rightarrow> real \<Rightarrow> rgb_image \<Rightarrow> rgb_image option" where
  "render cam spheres light_color light_direction light_intensity img =
     render_pixels cam spheres light_color light_direction light_intensity
       (List.product [0..<rgb_image.height img] [0..<rgb_image.width img]) img"

text \<open>
  The scene of \<^verbatim>\<open>main\<close>. The argument of \<open>main_render\<close> is what the pixel slots
  of the image hold when \<^verbatim>\<open>rgb_image_alloc(1920, 1080)\<close> returns it; \<^verbatim>\<open>main\<close> clears
  the image to \<open>bg_color\<close> before it reads its size for the camera.
\<close>

definition main_spheres :: "sphere list" where
  "main_spheres = [\<lparr>sphere.center = \<lparr>x = 0, y = 10, z = 0\<rparr>, radius = 4\<rparr>]"

definition bg_color :: rgb_pixel where
  "bg_color = \<lparr>r = 0, g = 0, b = 0\<rparr>"

definition main_camera :: "rgb_image \<Rightarrow> camera" where
  "main_camera img =
     (let cam_width = 10;
          cam_height = cam_width * real (rgb_image.height img) / real (rgb_image.width img)
      in \<lparr>camera.center = \<lparr>x = 0, y = 0, z = 0\<rparr>,
          forward = \<lparr>x = 0, y = 1, z = 0\<rparr>,
          up = \<lparr>x = 0, y = 0, z = 1\<rparr>,
          camera.width = cam_width,
          camera.height = cam_height,
          focal_distance = focal_distance_from_fov cam_width 80\<rparr>)"

definition main_render :: "(nat \<times> nat \<Rightarrow> rgb_pixel) \<Rightarrow> rgb_image option" where
  "main_render allocated =
     (let img = rgb_image_clear \<lparr>width = 1920, height = 1080, pixels = allocated\<rparr> bg_color;
          light_color = \<lparr>x = 1, y = 1, z = 0\<rparr>;
          light_direction = \<lparr>x = - 1, y = 1, z = 1\<rparr>;
          light_intensity = 5
      in case vec3_normalize light_direction of
           None \<Rightarrow> None
         | Some light_direction \<Rightarrow>
             render (main_camera img) main_spheres light_color light_direction light_intensity img)"

text \<open>
  Two comparisons of a distance \<open>t\<close> with a returned value, to state which sphere the
  loop keeps: \<open>at_least t d\<close> when \<open>d\<close> is infinite or a number not below \<open>t\<close>,
  \<open>beyond t d\<close> when \<open>d\<close> is infinite or a number above \<open>t\<close>.
\<close>

fun at_least :: "real \<Rightarrow> xdouble \<Rightarrow> bool" where
  "at_least t (Finite u) = (t \<le> u)"
| "at_least t Infinity = True"
| "at_least t NaN = False"

fun beyond :: "real \<Rightarrow> xdouble \<Rightarrow> bool" where
  "beyond t (Finite u) = (t < u)"
| "beyond t Infinity = True"
| "beyond t NaN = False"

section \<open>Field of view\<close>

lemma tan_half_fov_pos:
  assumes "0 < theta" and "theta < 180"
  shows "0 < tan ((theta * pi / 180) / 2)"
proof -
  have lower: "0 < theta * pi / 180 / 2"
    using assms by simp
  have "theta * pi / 180 / 2 < 180 * pi / 180 / 2"
    using assms by (simp add: field_simps)
  then have upper: "theta * pi / 180 / 2 < pi / 2"
    by simp
  from lower upper show ?thesis
    by (rule tan_gt_zero)
qed

text \<open>
  Claim C5. For every plane width \<open>w\<close> and every field-of-view angle \<open>theta\<close> in degrees
  with \<open>0 < theta < 180\<close>, \<^verbatim>\<open>focal_distance_from_fov(w, theta)\<close> is \<open>(w/2) / tan(theta_rad/2)\<close>,
  where \<open>theta_rad = theta * pi / 180\<close> is the angle in radians. The tangent is positive
  on that range, so the quotient is a division by a non-zero number.
\<close>

theorem focal_distance_from_fov_formula:
  assumes "0 < theta" and "theta < 180"
  shows "focal_distance_from_fov w theta = (w / 2) / tan ((theta * pi / 180) / 2)
         \<and> 0 < tan ((theta * pi / 180) / 2)"
  using tan_half_fov_pos [OF assms]
  by (simp add: focal_distance_from_fov_def)

theorem focal_distance_from_fov_formula_witness:
  "(0::real) < 90 \<and> (90::real) < 180 \<and> focal_distance_from_fov 10 90 = 5"
  using focal_distance_from_fov_formula [of 90 10] by (simp add: tan_45)

section \<open>Tone mapping\<close>







section \<open>Vector facts\<close>

lemmas vec3_ops = vec3_add_def vec3_sub_def vec3_mul_def vec3_dot_def vec3_length_def
  vec3_normalize_def vec3_cross_def

lemma vec3_dot_self_nonneg: "0 \<le> vec3_dot v v"
  by (simp add: vec3_dot_def)

lemma vec3_length_square: "vec3_length v * vec3_length v = vec3_dot v v"
  by (simp add: vec3_length_def vec3_dot_self_nonneg)

section \<open>Facts about the intersection test\<close>

text \<open>The distance returned, as one case distinction.\<close>

lemma sphere_ray_intersect_dist:
  fixes ry :: ray and sph :: sphere and p q :: real
  defines "p \<equiv> vec3_dot (vec3_sub (sphere.center sph) (source ry)) (direction ry)"
    and "q \<equiv> vec3_dot (vec3_sub (sphere.center sph) (source ry)) (vec3_sub (sphere.center sph) (source ry)) - p * p"
  shows "snd (sphere_ray_intersect ry sph) =
     (if p < 0 then Infinity
      else if q < 0 then NaN
      else if sqrt q > radius sph then Infinity
      else Finite (if p - sqrt (radius sph * radius sph - q) < 0
                   then p + sqrt (radius sph * radius sph - q)
                   else p - sqrt (radius sph * radius sph - q)))"
proof -
  have inner: "\<not> radius sph * radius sph - sqrt q * sqrt q < 0" if "0 \<le> q" "\<not> sqrt q > radius sph"
  proof -
    have "0 \<le> sqrt q" using that by simp
    moreover have "sqrt q \<le> radius sph" using that by simp
    ultimately have "sqrt q * sqrt q \<le> radius sph * radius sph"
      by (intro mult_mono) linarith+
    then show ?thesis by simp
  qed
  show ?thesis
    using inner
    by (auto simp: sphere_ray_intersect_def Let_def c_sqrt_def vec3_length_square p_def q_def
        split: option.splits)
qed

lemma sphere_ray_intersect_projection:
  assumes "snd (sphere_ray_intersect ry sph) = Finite t"
  shows "0 \<le> t \<and> 0 \<le> vec3_dot (vec3_sub (sphere.center sph) (source ry)) (direction ry)"
proof -
  let ?p = "vec3_dot (vec3_sub (sphere.center sph) (source ry)) (direction ry)"
  let ?q = "vec3_dot (vec3_sub (sphere.center sph) (source ry)) (vec3_sub (sphere.center sph) (source ry)) - ?p * ?p"
  let ?m = "sqrt (radius sph * radius sph - ?q)"
  from assms have p: "0 \<le> ?p"
    by (simp add: sphere_ray_intersect_dist split: if_splits)
  from assms have q: "0 \<le> ?q" "sqrt ?q \<le> radius sph"
    by (simp_all add: sphere_ray_intersect_dist split: if_splits)
  have "0 \<le> sqrt ?q" using q by simp
  then have "sqrt ?q * sqrt ?q \<le> radius sph * radius sph"
    using q by (intro mult_mono) linarith+
  then have m: "0 \<le> ?m" using q by simp
  from assms p q have "t = (if ?p - ?m < 0 then ?p + ?m else ?p - ?m)"
    by (simp add: sphere_ray_intersect_dist split: if_splits)
  with p m show ?thesis by (simp split: if_splits)
qed

lemma sphere_ray_intersect_nan:
  assumes "snd (sphere_ray_intersect ry sph) = NaN"
  shows "sphere_ray_intersect ry sph = (None, NaN)"
  using assms
  by (auto simp: sphere_ray_intersect_def Let_def split: if_splits option.splits)

lemma sphere_ray_intersect_nan_if:
  assumes "\<not> vec3_dot (vec3_sub (sphere.center sph) (source ry)) (direction ry) < 0"
    and "vec3_dot (vec3_sub (sphere.center sph) (source ry)) (vec3_sub (sphere.center sph) (source ry))
         < vec3_dot (vec3_sub (sphere.center sph) (source ry)) (direction ry)
           * vec3_dot (vec3_sub (sphere.center sph) (source ry)) (direction ry)"
  shows "sphere_ray_intersect ry sph = (None, NaN)"
  using assms by (intro sphere_ray_intersect_nan) (simp add: sphere_ray_intersect_dist)

lemma sphere_ray_intersect_number_if:
  assumes "\<not> vec3_dot (vec3_sub (sphere.center sph) (source ry)) (direction ry) < 0"
    and "vec3_dot (vec3_sub (sphere.center sph) (source ry)) (direction ry)
           * vec3_dot (vec3_sub (sphere.center sph) (source ry)) (direction ry)
         \<le> vec3_dot (vec3_sub (sphere.center sph) (source ry)) (vec3_sub (sphere.center sph) (source ry))"
    and "vec3_dot (vec3_sub (sphere.center sph) (source ry)) (vec3_sub (sphere.center sph) (source ry))
         - vec3_dot (vec3_sub (sphere.center sph) (source ry)) (direction ry)
           * vec3_dot (vec3_sub (sphere.center sph) (source ry)) (direction ry)
         \<le> radius sph * radius sph"
    and "0 \<le> radius sph"
  shows "snd (sphere_ray_intersect ry sph) \<noteq> NaN \<and> snd (sphere_ray_intersect ry sph) \<noteq> Infinity"
proof -
  let ?p = "vec3_dot (vec3_sub (sphere.center sph) (source ry)) (direction ry)"
  let ?q = "vec3_dot (vec3_sub (sphere.center sph) (source ry)) (vec3_sub (sphere.center sph) (source ry)) - ?p * ?p"
  have q0: "\<not> ?q < 0" using assms(2) by simp
  have "sqrt ?q \<le> sqrt (radius sph * radius sph)"
    using assms(3) by (simp only: real_sqrt_le_iff)
  then have "\<not> sqrt ?q > radius sph" using assms(4) by simp
  with assms(1) q0 show ?thesis
    by (simp add: sphere_ray_intersect_dist)
qed

section \<open>Facts about the loop over the spheres\<close>

lemma nearest_intersection_append:
  "nearest_intersection ry (xs @ ys) st = nearest_intersection ry ys (nearest_intersection ry xs st)"
proof (induction xs arbitrary: st)
  case Nil
  show ?case by simp
next
  case (Cons s xs)
  show ?case
    by (cases st) (simp add: Cons.IH Let_def split: prod.splits)
qed

lemma nearest_intersection_snoc:
  "nearest_intersection ry (xs @ [sph]) st =
     (if xd_ge (snd (sphere_ray_intersect ry sph)) (snd (nearest_intersection ry xs st))
      then nearest_intersection ry xs st
      else sphere_ray_intersect ry sph)"
  by (cases "nearest_intersection ry xs st")
     (simp add: nearest_intersection_append Let_def split: prod.splits)

lemma nearest_intersection_all_miss:
  assumes "\<forall>sph \<in> set xs. snd (sphere_ray_intersect ry sph) = Infinity"
  shows "nearest_intersection ry xs (None, Infinity) = (None, Infinity)"
  using assms
  by (induction xs) (auto simp: Let_def split: prod.splits)

lemma nearest_intersection_first_smallest:
  assumes "\<forall>sph \<in> set xs. snd (sphere_ray_intersect ry sph) \<noteq> NaN"
    and "\<not> (\<forall>sph \<in> set xs. snd (sphere_ray_intersect ry sph) = Infinity)"
  shows "\<exists>k<length xs. \<exists>t.
           nearest_intersection ry xs (None, Infinity) = sphere_ray_intersect ry (xs ! k)
         \<and> snd (sphere_ray_intersect ry (xs ! k)) = Finite t
         \<and> (\<forall>j<length xs. at_least t (snd (sphere_ray_intersect ry (xs ! j))))
         \<and> (\<forall>j<k. beyond t (snd (sphere_ray_intersect ry (xs ! j))))"
  using assms
proof (induction xs rule: rev_induct)
  case Nil
  then show ?case by simp
next
  case (snoc s xs)
  let ?res = "nearest_intersection ry xs (None, Infinity)"
  let ?d = "\<lambda>sph. snd (sphere_ray_intersect ry sph)"
  from snoc.prems have nn: "\<forall>sph \<in> set xs. ?d sph \<noteq> NaN" and ns: "?d s \<noteq> NaN"
    by simp_all
  show ?case
  proof (cases "\<forall>sph \<in> set xs. ?d sph = Infinity")
    case True
    then have res: "?res = (None, Infinity)" by (rule nearest_intersection_all_miss)
    from True snoc.prems(2) ns obtain u where u: "?d s = Finite u"
      by (cases "?d s") auto
    have new: "nearest_intersection ry (xs @ [s]) (None, Infinity) = sphere_ray_intersect ry s"
      by (simp add: nearest_intersection_snoc res u)
    have all: "\<forall>j<length (xs @ [s]). at_least u (?d ((xs @ [s]) ! j))"
      using True u by (auto simp: nth_append)
    have before: "\<forall>j<length xs. beyond u (?d ((xs @ [s]) ! j))"
      using True by (auto simp: nth_append)
    show ?thesis
      by (rule exI [of _ "length xs"]) (use new u all before in simp)
  next
    case False
    from snoc.IH [OF nn False] obtain k t where k: "k < length xs"
      and res: "?res = sphere_ray_intersect ry (xs ! k)"
      and t: "?d (xs ! k) = Finite t"
      and all: "\<forall>j<length xs. at_least t (?d (xs ! j))"
      and before: "\<forall>j<k. beyond t (?d (xs ! j))"
      by blast
    show ?thesis
    proof (cases "xd_ge (?d s) (Finite t)")
      case True
      then have keep: "nearest_intersection ry (xs @ [s]) (None, Infinity)
                       = sphere_ray_intersect ry ((xs @ [s]) ! k)"
        using k by (simp add: nearest_intersection_snoc res t nth_append)
      from True ns have "at_least t (?d s)"
        by (cases "?d s") auto
      then have all': "\<forall>j<length (xs @ [s]). at_least t (?d ((xs @ [s]) ! j))"
        using all by (auto simp: nth_append less_Suc_eq)
      have before': "\<forall>j<k. beyond t (?d ((xs @ [s]) ! j))"
        using before k by (auto simp: nth_append)
      have t': "?d ((xs @ [s]) ! k) = Finite t"
        using t k by (simp add: nth_append)
      show ?thesis
        by (rule exI [of _ k]) (use k keep t' all' before' in auto)
    next
      case notge: False
      with ns obtain u where u: "?d s = Finite u" and ut: "u < t"
        by (cases "?d s") auto
      have new: "nearest_intersection ry (xs @ [s]) (None, Infinity) = sphere_ray_intersect ry s"
        using notge by (simp add: nearest_intersection_snoc res t)
      have mono: "at_least t d \<Longrightarrow> beyond u d" for d
        using ut by (cases d) auto
      have before': "\<forall>j<length xs. beyond u (?d ((xs @ [s]) ! j))"
        using all mono by (auto simp: nth_append)
      have weak: "beyond u d \<Longrightarrow> at_least u d" for d
        by (cases d) auto
      have all': "\<forall>j<length (xs @ [s]). at_least u (?d ((xs @ [s]) ! j))"
        using before' weak u by (auto simp: nth_append less_Suc_eq)
      show ?thesis
        by (rule exI [of _ "length xs"]) (use new u all' before' in simp)
    qed
  qed
qed

lemma nearest_intersection_nan_order:
  assumes "sphere_ray_intersect ry sph = (i, Finite t)"
    and "sphere_ray_intersect ry sph' = (None, NaN)"
  shows "nearest_intersection ry [sph, sph'] (None, Infinity) = (None, NaN)
       \<and> nearest_intersection ry [sph', sph] (None, Infinity) = sphere_ray_intersect ry sph"
  using assms by simp

section \<open>The distance returned by the intersection test\<close>

text \<open>
  Claim C10. For every ray and sphere, whenever \<^verbatim>\<open>sphere_ray_intersect\<close> returns a
  finite distance \<open>t\<close>, \<open>t \<ge> 0\<close>: the projection is not negative past the early exit,
  so the root that is chosen is not negative either, and the hit point written,
  \<open>source + direction * t\<close>, is not behind the origin of the ray.
\<close>

theorem sphere_ray_intersect_nonneg:
  assumes "snd (sphere_ray_intersect ry sph) = Finite t"
  shows "0 \<le> t
       \<and> 0 \<le> vec3_dot (vec3_sub (sphere.center sph) (source ry)) (direction ry)
       \<and> (\<forall>i. fst (sphere_ray_intersect ry sph) = Some i \<longrightarrow> point i = ray_point ry t)"
proof -
  have "point i = ray_point ry t" if "fst (sphere_ray_intersect ry sph) = Some i" for i
    using that assms
    by (auto simp: sphere_ray_intersect_def Let_def ray_point_def split: if_splits option.splits)
  with sphere_ray_intersect_projection [OF assms] show ?thesis by blast
qed

theorem sphere_ray_intersect_nonneg_witness:
  "sphere_ray_intersect
         \<lparr>source = \<lparr>x = 0, y = 0, z = 0\<rparr>, direction = \<lparr>x = 0, y = 1, z = 0\<rparr>\<rparr>
         \<lparr>sphere.center = \<lparr>x = 0, y = 3, z = 0\<rparr>, radius = 5\<rparr>
     = (Some \<lparr>point = \<lparr>x = 0, y = 8, z = 0\<rparr>, normal = \<lparr>x = 0, y = 1, z = 0\<rparr>\<rparr>, Finite 8)
   \<and> (0::real) \<le> 8
   \<and> ray_point \<lparr>source = \<lparr>x = 0, y = 0, z = 0\<rparr>, direction = \<lparr>x = 0, y = 1, z = 0\<rparr>\<rparr> 8
      = \<lparr>x = 0, y = 8, z = 0\<rparr>"
  using sphere_ray_intersect_nonneg [of "\<lparr>source = \<lparr>x = 0, y = 0, z = 0\<rparr>, direction = \<lparr>x = 0, y = 1, z = 0\<rparr>\<rparr>"
      "\<lparr>sphere.center = \<lparr>x = 0, y = 3, z = 0\<rparr>, radius = 5\<rparr>" 8]
  by (simp add: sphere_ray_intersect_def c_sqrt_def ray_point_def vec3_ops Let_def)

section \<open>The nearest intersection\<close>

text \<open>
  Claim C3, as amended. For every ray for which no sphere's distance is a NaN, the loop
  over the spheres ends with the intersection of the sphere whose distance is the
  smallest: if every sphere is missed, the distance stays \<^verbatim>\<open>INFINITY\<close>; otherwise the
  loop ends with what \<^verbatim>\<open>sphere_ray_intersect\<close> gave for some sphere \<open>k\<close> at a finite
  distance \<open>t\<close>, no sphere is at a distance below \<open>t\<close>, and every sphere before \<open>k\<close> is
  at a distance above \<open>t\<close>: among spheres at equal distance the first one is kept. The
  proof uses the test \<^verbatim>\<open>intersection_dist >= best_intersection_dist\<close> only, and nothing
  of how the distances are computed.
\<close>

theorem nearest_intersection_selection:
  assumes "\<forall>sph \<in> set spheres. snd (sphere_ray_intersect ry sph) \<noteq> NaN"
  shows "if \<forall>sph \<in> set spheres. snd (sphere_ray_intersect ry sph) = Infinity
         then nearest_intersection ry spheres (None, Infinity) = (None, Infinity)
         else \<exists>k<length spheres. \<exists>t.
                nearest_intersection ry spheres (None, Infinity)
                  = sphere_ray_intersect ry (spheres ! k)
              \<and> snd (sphere_ray_intersect ry (spheres ! k)) = Finite t
              \<and> (\<forall>j<length spheres. at_least t (snd (sphere_ray_intersect ry (spheres ! j))))
              \<and> (\<forall>j<k. beyond t (snd (sphere_ray_intersect ry (spheres ! j))))"
  using assms nearest_intersection_first_smallest [of spheres ry]
    nearest_intersection_all_miss [of spheres ry]
  by (simp split: if_splits)

theorem nearest_intersection_selection_witness:
  "snd (sphere_ray_intersect \<lparr>source = \<lparr>x = 0, y = 0, z = 0\<rparr>, direction = \<lparr>x = 0, y = 1, z = 0\<rparr>\<rparr>
         \<lparr>sphere.center = \<lparr>x = 0, y = 15, z = 0\<rparr>, radius = 4\<rparr>) \<noteq> NaN
   \<and> snd (sphere_ray_intersect \<lparr>source = \<lparr>x = 0, y = 0, z = 0\<rparr>, direction = \<lparr>x = 0, y = 1, z = 0\<rparr>\<rparr>
         \<lparr>sphere.center = \<lparr>x = 12, y = 16, z = 0\<rparr>, radius = 13\<rparr>) \<noteq> NaN
   \<and> nearest_intersection \<lparr>source = \<lparr>x = 0, y = 0, z = 0\<rparr>, direction = \<lparr>x = 0, y = 1, z = 0\<rparr>\<rparr>
        [\<lparr>sphere.center = \<lparr>x = 0, y = 15, z = 0\<rparr>, radius = 4\<rparr>,
         \<lparr>sphere.center = \<lparr>x = 12, y = 16, z = 0\<rparr>, radius = 13\<rparr>] (None, Infinity)
     = (Some \<lparr>point = \<lparr>x = 0, y = 11, z = 0\<rparr>, normal = \<lparr>x = 0, y = - 1, z = 0\<rparr>\<rparr>, Finite 11)
   \<and> sphere_ray_intersect \<lparr>source = \<lparr>x = 0, y = 0, z = 0\<rparr>, direction = \<lparr>x = 0, y = 1, z = 0\<rparr>\<rparr>
         \<lparr>sphere.center = \<lparr>x = 12, y = 16, z = 0\<rparr>, radius = 13\<rparr>
     = (Some \<lparr>point = \<lparr>x = 0, y = 11, z = 0\<rparr>, normal = \<lparr>x = - 12 / 13, y = - 5 / 13, z = 0\<rparr>\<rparr>, Finite 11)"
proof -
  let ?ry = "\<lparr>source = \<lparr>x = 0, y = 0, z = 0\<rparr>, direction = \<lparr>x = 0, y = 1, z = 0\<rparr>\<rparr>"
  let ?A = "\<lparr>sphere.center = \<lparr>x = 0, y = 15, z = 0\<rparr>, radius = 4\<rparr>"
  let ?B = "\<lparr>sphere.center = \<lparr>x = 12, y = 16, z = 0\<rparr>, radius = 13\<rparr>"
  have A: "sphere_ray_intersect ?ry ?A
      = (Some \<lparr>point = \<lparr>x = 0, y = 11, z = 0\<rparr>, normal = \<lparr>x = 0, y = - 1, z = 0\<rparr>\<rparr>, Finite 11)"
    by (simp add: sphere_ray_intersect_def c_sqrt_def vec3_ops Let_def)
  have B: "sphere_ray_intersect ?ry ?B
      = (Some \<lparr>point = \<lparr>x = 0, y = 11, z = 0\<rparr>, normal = \<lparr>x = - 12 / 13, y = - 5 / 13, z = 0\<rparr>\<rparr>, Finite 11)"
    by (simp add: sphere_ray_intersect_def c_sqrt_def vec3_ops Let_def)
  have number: "\<forall>sph \<in> set [?A, ?B]. snd (sphere_ray_intersect ?ry sph) \<noteq> NaN"
    by (simp add: A B)
  have res: "nearest_intersection ?ry [?A, ?B] (None, Infinity)
      = (Some \<lparr>point = \<lparr>x = 0, y = 11, z = 0\<rparr>, normal = \<lparr>x = 0, y = - 1, z = 0\<rparr>\<rparr>, Finite 11)"
    by (simp add: A B)
  show ?thesis
    using nearest_intersection_selection [OF number] A B res by simp
qed

text \<open>
  Claim C3 as it is written speaks of every pixel. The ray below is the one
  \<^verbatim>\<open>camera_cast_ray\<close> computes in double precision, \<^verbatim>\<open>vec3_normalize\<close> dividing each
  component by the length, for pixel \<open>(1, 1)\<close> of an image of 4 by
  4 pixels, with the camera at the origin, \<open>forward = (0, 1, 0)\<close>, \<open>up = (0, 0, 1)\<close>,
  width 10, height 10 and focal distance 5: its source is \<open>(-2.5, 0, -2.5)\<close>, and its
  direction is \<open>(-2.5, 5, -2.5)\<close> divided by the double nearest to \<open>sqrt 37.5\<close>, each
  quotient rounded to a double, which is a little longer than 1.
  The first sphere is hit at a finite distance. The second sphere has its centre on the
  ray, 2.5 along it (rounded to doubles); for it
  \<open>hyp_len * hyp_len - projection * projection\<close> is negative and the distance is the NaN
  of \<^verbatim>\<open>sqrt\<close>. A NaN is not \<^verbatim>\<open>>=\<close> the best distance, so it replaces the finite
  distance found before it: with the spheres in this order the loop ends with the NaN and
  no intersection, with the spheres in the other order it ends with the first sphere.
\<close>

theorem nearest_intersection_nan_counterexample:
  "snd (sphere_ray_intersect
          \<lparr>source = \<lparr>x = - 5 / 2, y = 0, z = - 5 / 2\<rparr>,
           direction = \<lparr>x = - 3677173697615391 / 9007199254740992,
                        y = 3677173697615391 / 4503599627370496,
                        z = - 3677173697615391 / 9007199254740992\<rparr>\<rparr>
          \<lparr>sphere.center = \<lparr>x = - 4, y = 4, z = - 5\<rparr>, radius = 2\<rparr>) \<noteq> NaN
   \<and> snd (sphere_ray_intersect
          \<lparr>source = \<lparr>x = - 5 / 2, y = 0, z = - 5 / 2\<rparr>,
           direction = \<lparr>x = - 3677173697615391 / 9007199254740992,
                        y = 3677173697615391 / 4503599627370496,
                        z = - 3677173697615391 / 9007199254740992\<rparr>\<rparr>
          \<lparr>sphere.center = \<lparr>x = - 4, y = 4, z = - 5\<rparr>, radius = 2\<rparr>) \<noteq> Infinity
   \<and> nearest_intersection
          \<lparr>source = \<lparr>x = - 5 / 2, y = 0, z = - 5 / 2\<rparr>,
           direction = \<lparr>x = - 3677173697615391 / 9007199254740992,
                        y = 3677173697615391 / 4503599627370496,
                        z = - 3677173697615391 / 9007199254740992\<rparr>\<rparr>
          [\<lparr>sphere.center = \<lparr>x = - 4, y = 4, z = - 5\<rparr>, radius = 2\<rparr>,
           \<lparr>sphere.center = \<lparr>x = - 1981933273805685 / 562949953421312,
                             y = 4596467122019239 / 2251799813685248,
                             z = - 1981933273805685 / 562949953421312\<rparr>, radius = 1\<rparr>]
          (None, Infinity)
     = (None, NaN)
   \<and> nearest_intersection
          \<lparr>source = \<lparr>x = - 5 / 2, y = 0, z = - 5 / 2\<rparr>,
           direction = \<lparr>x = - 3677173697615391 / 9007199254740992,
                        y = 3677173697615391 / 4503599627370496,
                        z = - 3677173697615391 / 9007199254740992\<rparr>\<rparr>
          [\<lparr>sphere.center = \<lparr>x = - 1981933273805685 / 562949953421312,
                             y = 4596467122019239 / 2251799813685248,
                             z = - 1981933273805685 / 562949953421312\<rparr>, radius = 1\<rparr>,
           \<lparr>sphere.center = \<lparr>x = - 4, y = 4, z = - 5\<rparr>, radius = 2\<rparr>]
          (None, Infinity)
     = sphere_ray_intersect
          \<lparr>source = \<lparr>x = - 5 / 2, y = 0, z = - 5 / 2\<rparr>,
           direction = \<lparr>x = - 3677173697615391 / 9007199254740992,
                        y = 3677173697615391 / 4503599627370496,
                        z = - 3677173697615391 / 9007199254740992\<rparr>\<rparr>
          \<lparr>sphere.center = \<lparr>x = - 4, y = 4, z = - 5\<rparr>, radius = 2\<rparr>"
proof -
  let ?ry = "\<lparr>source = \<lparr>x = - 5 / 2, y = 0, z = - 5 / 2\<rparr>,
           direction = \<lparr>x = - 3677173697615391 / 9007199254740992,
                        y = 3677173697615391 / 4503599627370496,
                        z = - 3677173697615391 / 9007199254740992\<rparr>\<rparr>"
  let ?A = "\<lparr>sphere.center = \<lparr>x = - 4, y = 4, z = - 5\<rparr>, radius = 2\<rparr>"
  let ?S = "\<lparr>sphere.center = \<lparr>x = - 1981933273805685 / 562949953421312,
                             y = 4596467122019239 / 2251799813685248,
                             z = - 1981933273805685 / 562949953421312\<rparr>, radius = 1\<rparr>"
  have A: "snd (sphere_ray_intersect ?ry ?A) \<noteq> NaN \<and> snd (sphere_ray_intersect ?ry ?A) \<noteq> Infinity"
    by (rule sphere_ray_intersect_number_if) (simp_all add: vec3_dot_def vec3_sub_def)
  have S: "sphere_ray_intersect ?ry ?S = (None, NaN)"
    by (rule sphere_ray_intersect_nan_if) (simp_all add: vec3_dot_def vec3_sub_def)
  obtain i t where At: "sphere_ray_intersect ?ry ?A = (i, Finite t)"
    using A by (cases "sphere_ray_intersect ?ry ?A"; cases "snd (sphere_ray_intersect ?ry ?A)") auto
  from nearest_intersection_nan_order [OF At S] A show ?thesis
    by blast
qed

section \<open>The ray of a pixel\<close>

text \<open>
  For the camera of \<^verbatim>\<open>main\<close> the direction to normalise is never the zero vector:
  its component along \<open>forward\<close> is the focal distance, which is positive.
\<close>

lemma main_camera_cast_ray_defined:
  "\<exists>ry. camera_cast_ray (main_camera img) cam_x cam_y = Some ry"
proof -
  define f where "f = focal_distance_from_fov 10 80"
  have "0 < tan ((80 * pi / 180) / 2)"
    by (rule tan_half_fov_pos) simp_all
  then have f: "0 < f"
    by (simp add: f_def focal_distance_from_fov_def)
  define v where "v = vec3_sub
      (vec3_add (camera.center (main_camera img))
         (vec3_add (vec3_mul (vec3_cross (forward (main_camera img)) (up (main_camera img)))
                      (cam_x * camera.width (main_camera img)))
                   (vec3_mul (up (main_camera img)) (cam_y * camera.height (main_camera img)))))
      (vec3_add (vec3_mul (forward (main_camera img)) (- focal_distance (main_camera img)))
                (camera.center (main_camera img)))"
  have "y v = f"
    by (simp add: v_def main_camera_def Let_def f_def vec3_ops)
  then have "0 < y v * y v" using f by simp
  moreover have "0 \<le> x v * x v" "0 \<le> z v * z v" by simp_all
  ultimately have "0 < vec3_dot v v"
    unfolding vec3_dot_def by linarith
  then have "vec3_length v \<noteq> 0"
    by (simp add: vec3_length_def)
  then have "vec3_normalize v \<noteq> None"
    by (simp add: vec3_normalize_def Let_def)
  then show ?thesis
    by (auto simp: camera_cast_ray_def Let_def v_def [symmetric])
qed

text \<open>
  Claim C4. \<^verbatim>\<open>camera_cast_ray\<close> sets the ray origin to
  \<open>center + right * (cam_x * width) + up * (cam_y * height)\<close> with \<open>right = forward \<times> up\<close>,
  and the ray direction to the normalisation of \<open>origin - vantage_point\<close>, where
  \<open>vantage_point = center - forward * focal_distance\<close> (\<open>None\<close> when that vector is zero
  and has no normalisation). In particular, for a camera at the origin with
  \<open>forward = (0, 1, 0)\<close>, \<open>up = (0, 0, 1)\<close>, width 10 and height 10, whatever its focal
  distance (a distance from the image plane to the vantage point behind it, so
  positive), the ray at \<open>(0, 0)\<close> has origin \<open>(0, 0, 0)\<close> and direction \<open>(0, 1, 0)\<close>.
\<close>

theorem camera_cast_ray_formula:
  fixes cam :: camera and cam_x cam_y f :: real and right plane_point vantage_point :: vec3
  defines "right \<equiv> vec3_cross (forward cam) (up cam)"
    and "plane_point \<equiv>
           vec3_add (vec3_add (camera.center cam) (vec3_mul right (cam_x * camera.width cam)))
                    (vec3_mul (up cam) (cam_y * camera.height cam))"
    and "vantage_point \<equiv> vec3_sub (camera.center cam) (vec3_mul (forward cam) (focal_distance cam))"
  shows "camera_cast_ray cam cam_x cam_y =
           (case vec3_normalize (vec3_sub plane_point vantage_point) of
              None \<Rightarrow> None
            | Some dir \<Rightarrow> Some \<lparr>source = plane_point, direction = dir\<rparr>)
       \<and> (0 < f \<longrightarrow>
            camera_cast_ray
              \<lparr>camera.center = \<lparr>x = 0, y = 0, z = 0\<rparr>, forward = \<lparr>x = 0, y = 1, z = 0\<rparr>,
               up = \<lparr>x = 0, y = 0, z = 1\<rparr>, camera.width = 10, camera.height = 10,
               focal_distance = f\<rparr> 0 0
            = Some \<lparr>source = \<lparr>x = 0, y = 0, z = 0\<rparr>, direction = \<lparr>x = 0, y = 1, z = 0\<rparr>\<rparr>)"
proof -
  have src: "vec3_add (camera.center cam)
               (vec3_add (vec3_mul right (cam_x * camera.width cam))
                         (vec3_mul (up cam) (cam_y * camera.height cam))) = plane_point"
    by (simp add: plane_point_def vec3_add_def)
  have vantage: "vec3_add (vec3_mul (forward cam) (- focal_distance cam)) (camera.center cam)
                 = vantage_point"
    by (simp add: vantage_point_def vec3_add_def vec3_sub_def vec3_mul_def)
  have general: "camera_cast_ray cam cam_x cam_y =
           (case vec3_normalize (vec3_sub plane_point vantage_point) of
              None \<Rightarrow> None
            | Some dir \<Rightarrow> Some \<lparr>source = plane_point, direction = dir\<rparr>)"
    by (simp add: camera_cast_ray_def Let_def right_def [symmetric] src vantage
        split: option.splits)
  have example: "0 < f \<longrightarrow>
            camera_cast_ray
              \<lparr>camera.center = \<lparr>x = 0, y = 0, z = 0\<rparr>, forward = \<lparr>x = 0, y = 1, z = 0\<rparr>,
               up = \<lparr>x = 0, y = 0, z = 1\<rparr>, camera.width = 10, camera.height = 10,
               focal_distance = f\<rparr> 0 0
            = Some \<lparr>source = \<lparr>x = 0, y = 0, z = 0\<rparr>, direction = \<lparr>x = 0, y = 1, z = 0\<rparr>\<rparr>"
    by (simp add: camera_cast_ray_def vec3_ops Let_def)
  from general example show ?thesis by blast
qed

theorem camera_cast_ray_formula_witness:
  "(0::real) < 5 \<and>
   camera_cast_ray
      \<lparr>camera.center = \<lparr>x = 0, y = 0, z = 0\<rparr>, forward = \<lparr>x = 0, y = 1, z = 0\<rparr>,
       up = \<lparr>x = 0, y = 0, z = 1\<rparr>, camera.width = 10, camera.height = 10,
       focal_distance = 5\<rparr> 0 0
    = Some \<lparr>source = \<lparr>x = 0, y = 0, z = 0\<rparr>, direction = \<lparr>x = 0, y = 1, z = 0\<rparr>\<rparr>"
  using camera_cast_ray_formula [where f = 5 and cam_x = 0 and cam_y = 0 and cam =
      "\<lparr>camera.center = \<lparr>x = 0, y = 0, z = 0\<rparr>, forward = \<lparr>x = 0, y = 1, z = 0\<rparr>,
        up = \<lparr>x = 0, y = 0, z = 1\<rparr>, camera.width = 10, camera.height = 10,
        focal_distance = 5\<rparr>", THEN conjunct2]
  by simp

section \<open>Shading\<close>

text \<open>
  Claim C7. For every normal \<open>N\<close> and light direction \<open>L_dir\<close> (unit or not), the
  diffuse contribution is \<open>light_color * light_intensity\<close>, multiplied elementwise with
  the surface colour, scaled by \<open>max(0, - N . L_dir)\<close> times the diffuse weight; it is
  the zero vector whenever \<open>N . L_dir \<ge> 0\<close>.
\<close>

theorem diffuse_contribution_formula:
  fixes light_color light_direction :: vec3 and light_intensity :: real and bi :: intersection
  shows "diffuse_contribution light_color light_direction light_intensity bi
         = vec3_mul (vec3_mul_vec (vec3_mul light_color light_intensity) surface_color)
                    (max 0 (- vec3_dot (normal bi) light_direction) * diffuse_kn)
       \<and> (vec3_dot (normal bi) light_direction \<ge> 0 \<longrightarrow>
            diffuse_contribution light_color light_direction light_intensity bi = vec3_zero)"
  by (simp add: diffuse_contribution_def Let_def max_def vec3_mul_def vec3_zero_def)

theorem diffuse_contribution_formula_witness:
  "vec3_dot \<lparr>x = 0, y = - 1, z = 0\<rparr> \<lparr>x = 0, y = - 1, z = 0\<rparr> \<ge> 0
   \<and> diffuse_contribution \<lparr>x = 1, y = 1, z = 0\<rparr> \<lparr>x = 0, y = - 1, z = 0\<rparr> 5
        \<lparr>point = \<lparr>x = 0, y = 6, z = 0\<rparr>, normal = \<lparr>x = 0, y = - 1, z = 0\<rparr>\<rparr> = vec3_zero
   \<and> diffuse_contribution \<lparr>x = 1, y = 1, z = 0\<rparr> \<lparr>x = 0, y = 1, z = 0\<rparr> 5
        \<lparr>point = \<lparr>x = 0, y = 6, z = 0\<rparr>, normal = \<lparr>x = 0, y = - 1, z = 0\<rparr>\<rparr>
      = \<lparr>x = 0.75, y = 0.125, z = 0\<rparr>"
  using diffuse_contribution_formula [of "\<lparr>x = 1, y = 1, z = 0\<rparr>" "\<lparr>x = 0, y = - 1, z = 0\<rparr>" 5
      "\<lparr>point = \<lparr>x = 0, y = 6, z = 0\<rparr>, normal = \<lparr>x = 0, y = - 1, z = 0\<rparr>\<rparr>"]
    diffuse_contribution_formula [of "\<lparr>x = 1, y = 1, z = 0\<rparr>" "\<lparr>x = 0, y = 1, z = 0\<rparr>" 5
      "\<lparr>point = \<lparr>x = 0, y = 6, z = 0\<rparr>, normal = \<lparr>x = 0, y = - 1, z = 0\<rparr>\<rparr>"]
  by (simp add: vec3_dot_def vec3_mul_def vec3_mul_vec_def vec3_zero_def surface_color_def
      diffuse_kn_def)

lemma pow_spec_n: "0 \<le> v \<Longrightarrow> pow v spec_n = v ^ 10"
proof (cases "v = 0")
  case True
  then show ?thesis by (simp add: pow_def spec_n_def)
next
  case False
  assume "0 \<le> v"
  with False have "0 < v" by simp
  then show ?thesis by (simp add: pow_def spec_n_def)
qed

lemma specular_contribution_closed:
  "specular_contribution light_color light_direction ry bi
     = vec3_mul light_color
         ((max 0 (- vec3_dot (vec3_reflect light_direction (normal bi)) (direction ry))) ^ 10
          * spec_ks)"
proof (cases "- vec3_dot (vec3_reflect light_direction (normal bi)) (direction ry) < 0")
  case True
  then show ?thesis
    by (simp add: specular_contribution_def Let_def max_def vec3_mul_def vec3_zero_def)
next
  case False
  then have "pow (- vec3_dot (vec3_reflect light_direction (normal bi)) (direction ry)) spec_n
             = (- vec3_dot (vec3_reflect light_direction (normal bi)) (direction ry)) ^ 10"
    by (intro pow_spec_n) simp
  with False show ?thesis
    by (simp add: specular_contribution_def Let_def max_def)
qed

text \<open>
  Claim C8. With \<open>R\<close> the light direction reflected about the normal and \<open>D\<close> the
  direction of the view ray, the specular contribution is the light colour scaled by
  \<open>max(0, - R . D) ^ n * k_s\<close>, with \<open>n = 10\<close>, and the zero vector when \<open>- R . D \<le> 0\<close>;
  the ambient contribution is the surface colour times the ambient intensity; the
  light-space colour of the pixel is the sum of the ambient, diffuse and specular
  contributions, with no clamping.
\<close>

theorem specular_contribution_and_pix_color:
  fixes light_color light_direction :: vec3 and light_intensity :: real
    and ry :: ray and bi :: intersection and R :: vec3 and a :: real
  defines "R \<equiv> vec3_reflect light_direction (normal bi)"
    and "a \<equiv> - vec3_dot R (direction ry)"
  shows "specular_contribution light_color light_direction ry bi
           = vec3_mul light_color ((max 0 a) ^ 10 * spec_ks)
       \<and> spec_n = 10
       \<and> (a \<le> 0 \<longrightarrow> specular_contribution light_color light_direction ry bi = vec3_zero)
       \<and> ambient_contribution = vec3_mul surface_color ambient_intensity
       \<and> pix_color light_color light_direction light_intensity ry bi
           = vec3_add (vec3_add ambient_contribution
                         (diffuse_contribution light_color light_direction light_intensity bi))
                      (specular_contribution light_color light_direction ry bi)"
proof -
  have spec: "specular_contribution light_color light_direction ry bi
           = vec3_mul light_color ((max 0 a) ^ 10 * spec_ks)"
    unfolding a_def R_def by (rule specular_contribution_closed)
  have zero: "a \<le> 0 \<longrightarrow> specular_contribution light_color light_direction ry bi = vec3_zero"
    unfolding spec by (simp add: max_def vec3_mul_def vec3_zero_def)
  have sum: "pix_color light_color light_direction light_intensity ry bi
           = vec3_add (vec3_add ambient_contribution
                         (diffuse_contribution light_color light_direction light_intensity bi))
                      (specular_contribution light_color light_direction ry bi)"
    by (simp add: pix_color_def Let_def vec3_add_def vec3_zero_def)
  from spec zero sum show ?thesis
    by (simp add: spec_n_def ambient_contribution_def)
qed

theorem specular_contribution_and_pix_color_witness:
  "- vec3_dot (vec3_reflect \<lparr>x = 0, y = 1, z = 0\<rparr> \<lparr>x = 1, y = 0, z = 0\<rparr>) \<lparr>x = 0, y = 1, z = 0\<rparr> \<le> 0
   \<and> specular_contribution \<lparr>x = 1, y = 1, z = 0\<rparr> \<lparr>x = 0, y = 1, z = 0\<rparr>
        \<lparr>source = \<lparr>x = 0, y = 0, z = 0\<rparr>, direction = \<lparr>x = 0, y = 1, z = 0\<rparr>\<rparr>
        \<lparr>point = \<lparr>x = 0, y = 6, z = 0\<rparr>, normal = \<lparr>x = 1, y = 0, z = 0\<rparr>\<rparr> = vec3_zero
   \<and> specular_contribution \<lparr>x = 1, y = 1, z = 0\<rparr> \<lparr>x = 0, y = 1, z = 0\<rparr>
        \<lparr>source = \<lparr>x = 0, y = 0, z = 0\<rparr>, direction = \<lparr>x = 0, y = 1, z = 0\<rparr>\<rparr>
        \<lparr>point = \<lparr>x = 0, y = 6, z = 0\<rparr>, normal = \<lparr>x = 0, y = - 1, z = 0\<rparr>\<rparr>
      = \<lparr>x = 0.2, y = 0.2, z = 0\<rparr>"
  using specular_contribution_and_pix_color [of "\<lparr>x = 1, y = 1, z = 0\<rparr>" "\<lparr>x = 0, y = 1, z = 0\<rparr>"
        "\<lparr>source = \<lparr>x = 0, y = 0, z = 0\<rparr>, direction = \<lparr>x = 0, y = 1, z = 0\<rparr>\<rparr>"
        "\<lparr>point = \<lparr>x = 0, y = 6, z = 0\<rparr>, normal = \<lparr>x = 1, y = 0, z = 0\<rparr>\<rparr>" 5]
     specular_contribution_and_pix_color [of "\<lparr>x = 1, y = 1, z = 0\<rparr>" "\<lparr>x = 0, y = 1, z = 0\<rparr>"
        "\<lparr>source = \<lparr>x = 0, y = 0, z = 0\<rparr>, direction = \<lparr>x = 0, y = 1, z = 0\<rparr>\<rparr>"
        "\<lparr>point = \<lparr>x = 0, y = 6, z = 0\<rparr>, normal = \<lparr>x = 0, y = - 1, z = 0\<rparr>\<rparr>" 5]
  by (simp add: vec3_reflect_def vec3_sub_def vec3_dot_def vec3_mul_def vec3_zero_def spec_ks_def)

section \<open>Pixels that hit nothing\<close>

lemma trace_pixel_size:
  assumes "rgb_image.width im = rgb_image.width img" and "rgb_image.height im = rgb_image.height img"
  shows "trace_pixel cam spheres lc ld li im col row = trace_pixel cam spheres lc ld li img col row"
  by (simp add: trace_pixel_def assms)

lemma rgb_image_set_size:
  "rgb_image.width (rgb_image_set img col row c) = rgb_image.width img"
  "rgb_image.height (rgb_image_set img col row c) = rgb_image.height img"
  by (simp_all add: rgb_image_set_def)

lemma rgb_image_set_other:
  "(col', row') \<noteq> (col, row) \<Longrightarrow> pixels (rgb_image_set img col' row' c) (col, row) = pixels img (col, row)"
  by (auto simp: rgb_image_set_def)

lemma trace_pixel_miss:
  assumes cast: "camera_cast_ray cam (real col / real (rgb_image.width img) - 0.5)
                   (real row / real (rgb_image.height img) - 0.5) = Some ry"
    and miss: "\<forall>sph \<in> set spheres. snd (sphere_ray_intersect ry sph) = Infinity"
  shows "trace_pixel cam spheres lc ld li img col row = NotShaded"
  using cast nearest_intersection_all_miss [OF miss]
  by (simp add: trace_pixel_def)

lemma render_pixel_size:
  assumes "render_pixel cam spheres lc ld li im col row = Some im'"
  shows "rgb_image.width im' = rgb_image.width im \<and> rgb_image.height im' = rgb_image.height im"
  using assms
  by (auto simp: render_pixel_def rgb_image_set_size split: pixel_light.splits)

lemma render_pixel_other:
  assumes "render_pixel cam spheres lc ld li im col' row' = Some im'"
    and "(col', row') \<noteq> (col, row)"
  shows "pixels im' (col, row) = pixels im (col, row)"
  using assms
  by (auto simp: render_pixel_def rgb_image_set_other split: pixel_light.splits)

lemma render_pixels_keeps:
  assumes miss: "trace_pixel cam spheres lc ld li img col row = NotShaded"
  shows "render_pixels cam spheres lc ld li ps im = Some out
     \<Longrightarrow> rgb_image.width im = rgb_image.width img
     \<Longrightarrow> rgb_image.height im = rgb_image.height img
     \<Longrightarrow> pixels out (col, row) = pixels im (col, row)"
proof (induction ps arbitrary: im)
  case Nil
  then show ?case by simp
next
  case (Cons p ps)
  obtain row' col' where p: "p = (row', col')" by (cases p)
  from Cons.prems(1) have run: "(case render_pixel cam spheres lc ld li im col' row' of
        None \<Rightarrow> None
      | Some img' \<Rightarrow> render_pixels cam spheres lc ld li ps img') = Some out"
    unfolding p by simp
  then obtain im' where step: "render_pixel cam spheres lc ld li im col' row' = Some im'"
    by (cases "render_pixel cam spheres lc ld li im col' row'") simp_all
  with run have rest: "render_pixels cam spheres lc ld li ps im' = Some out"
    by simp
  have w: "rgb_image.width im' = rgb_image.width img"
    using render_pixel_size [OF step] Cons.prems(2) by simp
  have h: "rgb_image.height im' = rgb_image.height img"
    using render_pixel_size [OF step] Cons.prems(3) by simp
  have here: "pixels im' (col, row) = pixels im (col, row)"
  proof (cases "col' = col \<and> row' = row")
    case True
    have "trace_pixel cam spheres lc ld li im col row = NotShaded"
      using miss trace_pixel_size [OF Cons.prems(2) Cons.prems(3)] by simp
    with True have "render_pixel cam spheres lc ld li im col' row' = Some im"
      by (simp add: render_pixel_def)
    with step have "im' = im" by simp
    then show ?thesis by simp
  next
    case False
    then have "(col', row') \<noteq> (col, row)" by simp
    with step show ?thesis by (rule render_pixel_other)
  qed
  have "pixels out (col, row) = pixels im' (col, row)"
    using rest w h by (rule Cons.IH)
  also note here
  finally show ?case .
qed

text \<open>
  Claim C9. For every pixel whose camera ray misses every sphere, the nearest distance
  stays \<^verbatim>\<open>INFINITY\<close>, the iteration leaves through \<^verbatim>\<open>continue\<close> before any shading, and
  the image after the iteration is the image before it, in this pixel and in every
  other one. Over the whole run of the two loops the pixel keeps the colour it had at
  the start, which is the background colour when the image was cleared to it.
\<close>

theorem render_pixel_no_hit:
  assumes cast: "camera_cast_ray cam (real col / real (rgb_image.width img) - 0.5)
                   (real row / real (rgb_image.height img) - 0.5) = Some ry"
    and miss: "\<forall>sph \<in> set spheres. snd (sphere_ray_intersect ry sph) = Infinity"
  shows "nearest_intersection ry spheres (None, Infinity) = (None, Infinity)
       \<and> trace_pixel cam spheres lc ld li img col row = NotShaded
       \<and> render_pixel cam spheres lc ld li img col row = Some img
       \<and> (\<forall>out. render cam spheres lc ld li img = Some out \<longrightarrow>
             pixels out (col, row) = pixels img (col, row))
       \<and> (\<forall>allocated bg out.
             img = rgb_image_clear allocated bg \<and> render cam spheres lc ld li img = Some out \<longrightarrow>
             pixels out (col, row) = bg)"
proof -
  have n: "trace_pixel cam spheres lc ld li img col row = NotShaded"
    using cast miss by (rule trace_pixel_miss)
  then have "render_pixel cam spheres lc ld li img col row = Some img"
    by (simp add: render_pixel_def)
  moreover have kept: "\<forall>out. render cam spheres lc ld li img = Some out \<longrightarrow>
             pixels out (col, row) = pixels img (col, row)"
    unfolding render_def using render_pixels_keeps [OF n] by blast
  moreover have "\<forall>allocated bg out.
             img = rgb_image_clear allocated bg \<and> render cam spheres lc ld li img = Some out \<longrightarrow>
             pixels out (col, row) = bg"
  proof (intro allI impI)
    fix allocated bg out
    assume a: "img = rgb_image_clear allocated bg \<and> render cam spheres lc ld li img = Some out"
    with kept have "pixels out (col, row) = pixels img (col, row)" by blast
    also have "\<dots> = bg" using a by (simp add: rgb_image_clear_def)
    finally show "pixels out (col, row) = bg" .
  qed
  ultimately show ?thesis
    using n nearest_intersection_all_miss [OF miss] by blast
qed

theorem render_pixel_no_hit_witness:
  "camera_cast_ray
      \<lparr>camera.center = \<lparr>x = 0, y = 0, z = 0\<rparr>, forward = \<lparr>x = 0, y = 1, z = 0\<rparr>,
       up = \<lparr>x = 0, y = 0, z = 1\<rparr>, camera.width = 10, camera.height = 10,
       focal_distance = 5\<rparr>
      (real 1 / real (rgb_image.width \<lparr>width = 2, height = 2, pixels = (\<lambda>_. \<lparr>r = 7, g = 7, b = 7\<rparr>)\<rparr>) - 0.5)
      (real 1 / real (rgb_image.height \<lparr>width = 2, height = 2, pixels = (\<lambda>_. \<lparr>r = 7, g = 7, b = 7\<rparr>)\<rparr>) - 0.5)
    = Some \<lparr>source = \<lparr>x = 0, y = 0, z = 0\<rparr>, direction = \<lparr>x = 0, y = 1, z = 0\<rparr>\<rparr>
   \<and> snd (sphere_ray_intersect
            \<lparr>source = \<lparr>x = 0, y = 0, z = 0\<rparr>, direction = \<lparr>x = 0, y = 1, z = 0\<rparr>\<rparr>
            \<lparr>sphere.center = \<lparr>x = 0, y = - 10, z = 0\<rparr>, radius = 4\<rparr>) = Infinity
   \<and> snd (sphere_ray_intersect
            \<lparr>source = \<lparr>x = 0, y = 0, z = 0\<rparr>, direction = \<lparr>x = 0, y = 1, z = 0\<rparr>\<rparr>
            \<lparr>sphere.center = \<lparr>x = 10, y = 10, z = 0\<rparr>, radius = 4\<rparr>) = Infinity
   \<and> render_pixel
        \<lparr>camera.center = \<lparr>x = 0, y = 0, z = 0\<rparr>, forward = \<lparr>x = 0, y = 1, z = 0\<rparr>,
         up = \<lparr>x = 0, y = 0, z = 1\<rparr>, camera.width = 10, camera.height = 10,
         focal_distance = 5\<rparr>
        [\<lparr>sphere.center = \<lparr>x = 0, y = - 10, z = 0\<rparr>, radius = 4\<rparr>,
         \<lparr>sphere.center = \<lparr>x = 10, y = 10, z = 0\<rparr>, radius = 4\<rparr>]
        \<lparr>x = 1, y = 1, z = 0\<rparr> \<lparr>x = 0, y = 1, z = 0\<rparr> 5
        \<lparr>width = 2, height = 2, pixels = (\<lambda>_. \<lparr>r = 7, g = 7, b = 7\<rparr>)\<rparr> 1 1
     = Some \<lparr>width = 2, height = 2, pixels = (\<lambda>_. \<lparr>r = 7, g = 7, b = 7\<rparr>)\<rparr>"
proof -
  let ?cam = "\<lparr>camera.center = \<lparr>x = 0, y = 0, z = 0\<rparr>, forward = \<lparr>x = 0, y = 1, z = 0\<rparr>,
       up = \<lparr>x = 0, y = 0, z = 1\<rparr>, camera.width = 10, camera.height = 10,
       focal_distance = 5\<rparr>"
  let ?img = "\<lparr>width = 2, height = 2, pixels = (\<lambda>_. \<lparr>r = 7, g = 7, b = 7\<rparr>)\<rparr>"
  let ?ry = "\<lparr>source = \<lparr>x = 0, y = 0, z = 0\<rparr>, direction = \<lparr>x = 0, y = 1, z = 0\<rparr>\<rparr>"
  let ?spheres = "[\<lparr>sphere.center = \<lparr>x = 0, y = - 10, z = 0\<rparr>, radius = 4\<rparr>,
                    \<lparr>sphere.center = \<lparr>x = 10, y = 10, z = 0\<rparr>, radius = 4\<rparr>]"
  have cast: "camera_cast_ray ?cam (real 1 / real (rgb_image.width ?img) - 0.5)
                 (real 1 / real (rgb_image.height ?img) - 0.5) = Some ?ry"
    by (simp add: camera_cast_ray_def vec3_ops Let_def)
  have miss: "\<forall>sph \<in> set ?spheres. snd (sphere_ray_intersect ?ry sph) = Infinity"
    by (simp add: sphere_ray_intersect_def c_sqrt_def vec3_ops Let_def)
  from render_pixel_no_hit [OF cast miss] cast miss show ?thesis
    by simp
qed

section \<open>Without rounding\<close>

text \<open>
  The facts of this section hold of the functions above as functions on the reals, that
  is when no operation rounds. They are not facts about the doubles the program returns:
  in double precision the tests \<^verbatim>\<open>d > sphere->radius\<close> and \<^verbatim>\<open>t < 0.\<close> can go the other
  way where the exact values are equal or zero, and a direction normalised in doubles
  is not exactly of length 1.
\<close>

lemma vec3_cauchy_schwarz: "vec3_dot u v * vec3_dot u v \<le> vec3_dot u u * vec3_dot v v"
proof -
  have "vec3_dot u u * vec3_dot v v - vec3_dot u v * vec3_dot u v
        = (x u * y v - y u * x v)\<^sup>2 + (x u * z v - z u * x v)\<^sup>2 + (y u * z v - z u * y v)\<^sup>2"
    by (simp add: vec3_dot_def power2_eq_square algebra_simps)
  moreover have "0 \<le> (x u * y v - y u * x v)\<^sup>2 + (x u * z v - z u * x v)\<^sup>2 + (y u * z v - z u * y v)\<^sup>2"
    by simp
  ultimately show ?thesis by linarith
qed

lemma vec3_unit_dot: "vec3_length v = 1 \<Longrightarrow> vec3_dot v v = 1"
  using vec3_length_square [of v] by simp

lemma ray_sphere_root_expand:
  "ray_sphere_root ry sph u \<longleftrightarrow>
     u * u * vec3_dot (direction ry) (direction ry)
     - 2 * u * vec3_dot (vec3_sub (sphere.center sph) (source ry)) (direction ry)
     + vec3_dot (vec3_sub (sphere.center sph) (source ry)) (vec3_sub (sphere.center sph) (source ry))
     = radius sph * radius sph"
proof -
  have "vec3_dot (vec3_sub (ray_point ry u) (sphere.center sph))
               (vec3_sub (ray_point ry u) (sphere.center sph))
      = u * u * vec3_dot (direction ry) (direction ry)
     - 2 * u * vec3_dot (vec3_sub (sphere.center sph) (source ry)) (direction ry)
     + vec3_dot (vec3_sub (sphere.center sph) (source ry)) (vec3_sub (sphere.center sph) (source ry))"
    by (simp add: ray_point_def vec3_dot_def vec3_sub_def vec3_add_def vec3_mul_def algebra_simps)
  then show ?thesis by (simp add: ray_sphere_root_def)
qed

lemma square_eq_cases:
  fixes u m :: real
  assumes "0 \<le> m"
  shows "u * u = m * m \<longleftrightarrow> u = m \<or> u = - m"
  by (metis (no_types) mult_minus_left mult_minus_right square_eq_iff minus_minus)

text \<open>
  On a ray of unit direction a finite distance is \<open>t0\<close> if \<open>t0 \<ge> 0\<close> and \<open>t1\<close> otherwise,
  and it is the smallest root of the ray-sphere equation that is not negative.
\<close>

lemma sphere_ray_intersect_smallest_root_exact:
  fixes ry :: ray and sph :: sphere and t p d m t0 t1 :: real
  defines "p \<equiv> vec3_dot (vec3_sub (sphere.center sph) (source ry)) (direction ry)"
    and "d \<equiv> sqrt (vec3_length (vec3_sub (sphere.center sph) (source ry))
                    * vec3_length (vec3_sub (sphere.center sph) (source ry)) - p * p)"
    and "m \<equiv> sqrt (radius sph * radius sph - d * d)"
    and "t0 \<equiv> p - m"
    and "t1 \<equiv> p + m"
  assumes unit: "vec3_length (direction ry) = 1"
    and hit: "snd (sphere_ray_intersect ry sph) = Finite t"
  shows "t = (if 0 \<le> t0 then t0 else t1)
       \<and> 0 \<le> t
       \<and> ray_sphere_root ry sph t
       \<and> (\<forall>u. 0 \<le> u \<and> ray_sphere_root ry sph u \<longrightarrow> t \<le> u)"
proof -
  let ?L = "vec3_sub (sphere.center sph) (source ry)"
  define q where "q = vec3_dot ?L ?L - p * p"
  have dd: "vec3_dot (direction ry) (direction ry) = 1"
    using unit by (rule vec3_unit_dot)
  have "p * p \<le> vec3_dot ?L ?L * vec3_dot (direction ry) (direction ry)"
    unfolding p_def by (rule vec3_cauchy_schwarz)
  then have q0: "0 \<le> q" by (simp add: q_def dd)
  have d_eq: "d = sqrt q" by (simp add: d_def q_def vec3_length_square)
  have d_sq: "d * d = q" using q0 by (simp add: d_eq)
  from hit have p0: "0 \<le> p" 
    by (simp add: sphere_ray_intersect_dist p_def split: if_splits)
  from hit q0 have dr: "d \<le> radius sph"
    by (simp add: sphere_ray_intersect_dist p_def d_eq q_def split: if_splits)
  have "0 \<le> d" using q0 by (simp add: d_eq)
  then have "d * d \<le> radius sph * radius sph" using dr by (intro mult_mono) linarith+
  then have m_arg: "0 \<le> radius sph * radius sph - q" by (simp add: d_sq)
  have m0: "0 \<le> m" using m_arg by (simp add: m_def d_sq)
  have m_sq: "m * m = radius sph * radius sph - q" using m_arg by (simp add: m_def d_sq)
  from hit p0 q0 dr have t_eq: "t = (if t0 < 0 then t1 else t0)"
    by (simp add: sphere_ray_intersect_dist p_def [symmetric] q_def [symmetric] d_eq [symmetric]
        m_def d_sq t0_def t1_def split: if_splits)
  have root_iff: "ray_sphere_root ry sph u \<longleftrightarrow> u = t0 \<or> u = t1" for u
  proof -
    have "ray_sphere_root ry sph u \<longleftrightarrow> (u - p) * (u - p) = m * m"
      by (simp add: ray_sphere_root_expand dd p_def [symmetric] m_sq q_def algebra_simps)
    also have "\<dots> \<longleftrightarrow> u - p = m \<or> u - p = - m"
      using m0 by (rule square_eq_cases)
    also have "\<dots> \<longleftrightarrow> u = t0 \<or> u = t1"
      by (auto simp: t0_def t1_def)
    finally show ?thesis .
  qed
  have le: "t0 \<le> t1" using m0 by (simp add: t0_def t1_def)
  have t1_nonneg: "0 \<le> t1" using p0 m0 by (simp add: t1_def)
  have 1: "t = (if 0 \<le> t0 then t0 else t1)" using t_eq by auto
  have 2: "0 \<le> t" using t_eq t1_nonneg by (auto split: if_splits)
  have 3: "ray_sphere_root ry sph t" using t_eq by (simp add: root_iff)
  have 4: "\<forall>u. 0 \<le> u \<and> ray_sphere_root ry sph u \<longrightarrow> t \<le> u"
    using t_eq le by (auto simp: root_iff split: if_splits)
  from 1 2 3 4 show ?thesis by blast
qed

text \<open>
  On a ray of unit direction the sentinel is returned exactly when the projection is
  negative or the centre is farther from the ray than the radius, and a finite distance
  otherwise. On other rays the distance can be a NaN.
\<close>

lemma sphere_ray_intersect_sentinel_exact:
  fixes ry :: ray and sph :: sphere and p d :: real
  defines "p \<equiv> vec3_dot (vec3_sub (sphere.center sph) (source ry)) (direction ry)"
    and "d \<equiv> sqrt (vec3_length (vec3_sub (sphere.center sph) (source ry))
                    * vec3_length (vec3_sub (sphere.center sph) (source ry)) - p * p)"
  assumes unit: "vec3_length (direction ry) = 1"
  shows "(snd (sphere_ray_intersect ry sph) = Infinity \<longleftrightarrow> p < 0 \<or> d > radius sph)
       \<and> (\<not> (p < 0 \<or> d > radius sph) \<longrightarrow> (\<exists>t. snd (sphere_ray_intersect ry sph) = Finite t))"
proof -
  let ?L = "vec3_sub (sphere.center sph) (source ry)"
  have "p * p \<le> vec3_dot ?L ?L * vec3_dot (direction ry) (direction ry)"
    unfolding p_def by (rule vec3_cauchy_schwarz)
  then have q0: "\<not> vec3_dot ?L ?L - p * p < 0"
    using vec3_unit_dot [OF unit] by simp
  show ?thesis
    using q0
    by (simp add: sphere_ray_intersect_dist p_def [symmetric] d_def vec3_length_square)
qed

lemma sphere_ray_intersect_nan_example:
  "sphere_ray_intersect
     \<lparr>source = \<lparr>x = 0, y = 0, z = 0\<rparr>, direction = \<lparr>x = 0, y = 2, z = 0\<rparr>\<rparr>
     \<lparr>sphere.center = \<lparr>x = 0, y = 10, z = 0\<rparr>, radius = 4\<rparr> = (None, NaN)
   \<and> \<not> vec3_dot (vec3_sub \<lparr>x = 0, y = 10, z = 0\<rparr> \<lparr>x = 0, y = 0, z = 0\<rparr>) \<lparr>x = 0, y = 2, z = 0\<rparr> < 0
   \<and> c_sqrt (vec3_length (vec3_sub \<lparr>x = 0, y = 10, z = 0\<rparr> \<lparr>x = 0, y = 0, z = 0\<rparr>)
             * vec3_length (vec3_sub \<lparr>x = 0, y = 10, z = 0\<rparr> \<lparr>x = 0, y = 0, z = 0\<rparr>)
             - vec3_dot (vec3_sub \<lparr>x = 0, y = 10, z = 0\<rparr> \<lparr>x = 0, y = 0, z = 0\<rparr>) \<lparr>x = 0, y = 2, z = 0\<rparr>
               * vec3_dot (vec3_sub \<lparr>x = 0, y = 10, z = 0\<rparr> \<lparr>x = 0, y = 0, z = 0\<rparr>) \<lparr>x = 0, y = 2, z = 0\<rparr>)
       = None"
  by (simp add: sphere_ray_intersect_def c_sqrt_def vec3_ops Let_def)

lemma sphere_ray_intersect_unit_number:
  assumes "vec3_length (direction ry) = 1"
  shows "snd (sphere_ray_intersect ry sph) \<noteq> NaN"
proof -
  let ?L = "vec3_sub (sphere.center sph) (source ry)"
  have "vec3_dot ?L (direction ry) * vec3_dot ?L (direction ry)
        \<le> vec3_dot ?L ?L * vec3_dot (direction ry) (direction ry)"
    by (rule vec3_cauchy_schwarz)
  then have "\<not> vec3_dot ?L ?L - vec3_dot ?L (direction ry) * vec3_dot ?L (direction ry) < 0"
    using vec3_unit_dot [OF assms] by simp
  then show ?thesis
    by (simp add: sphere_ray_intersect_dist)
qed

text \<open>A normalised vector has length 1; so has the direction of a ray of the camera.\<close>

lemma vec3_normalize_unit:
  assumes "vec3_normalize v = Some n"
  shows "vec3_length n = 1"
proof -
  from assms have len: "vec3_length v \<noteq> 0"
    and n: "n = \<lparr>x = x v / vec3_length v, y = y v / vec3_length v, z = z v / vec3_length v\<rparr>"
    by (auto simp: vec3_normalize_def Let_def split: if_splits)
  have "vec3_dot n n = vec3_dot v v / (vec3_length v * vec3_length v)"
    by (simp add: n vec3_dot_def add_divide_distrib)
  also have "\<dots> = 1"
    using len by (simp add: vec3_length_def vec3_dot_self_nonneg)
  finally show ?thesis by (simp add: vec3_length_def)
qed

lemma camera_cast_ray_unit:
  assumes "camera_cast_ray cam cam_x cam_y = Some ry"
  shows "vec3_length (direction ry) = 1"
  using assms
  by (auto simp: camera_cast_ray_def Let_def split: option.splits dest: vec3_normalize_unit)

end
